theory Spec2Isabelle
  imports Main
begin

section \<open>Errors and panics\<close>

text \<open>
  Go errors are values. The arguments of a formatting call are kept beside the format
  string, so that an error built by \<^verbatim>\<open>fmt.Errorf(format, args...)\<close> or by
  \<^verbatim>\<open>errors.NewError(format, args...).WithCause(cause)\<close> records exactly what the
  source passed to it.
\<close>

datatype arg = S string | D int | V "int list"

text \<open>
  Modelled from the spec: the error constructors of the packages
  \<^verbatim>\<open>pkg/bootstrap/docker/errors\<close> (\<^verbatim>\<open>NewError\<close>, \<^verbatim>\<open>WithCause\<close>) and
  \<^verbatim>\<open>pkg/bootstrap/docker/openshift\<close> (\<^verbatim>\<open>ErrOpenShiftFailedToStart\<close>,
  \<^verbatim>\<open>ErrTimedOutWaitingForStart\<close>) are not part of helper.go. Following section 7 of the
  specification, every one of them is an error kind of its own that carries a contextual
  message; \<open>NewError\<close> also carries the cause handed to \<^verbatim>\<open>WithCause\<close> (\<open>None\<close> for
  a nil cause). \<open>Collaborator\<close> is an error value produced by an external collaborator.
\<close>

datatype error =
    Errorf string "arg list"
  | NewError string "arg list" "error option"
  | ErrOpenShiftFailedToStart string
  | ErrTimedOutWaitingForStart string
  | Collaborator string

text \<open>A run-time panic of the Go program: an index expression out of range.\<close>

datatype panic = IndexOutOfRange

section \<open>String functions of the Go library used by the port checker\<close>

text \<open>
  Go strings are byte sequences; so is \<^typ>\<open>string\<close>. \<^verbatim>\<open>strings.Split(s, sep)\<close> is
  only called with the one-byte separators \<^verbatim>\<open>"\n"\<close> and \<^verbatim>\<open>":"\<close>; the result always
  has at least one element.
\<close>

fun strings_Split :: "string \<Rightarrow> char \<Rightarrow> string list" where
  "strings_Split [] sep = [[]]"
| "strings_Split (c # s) sep =
     (if c = sep then [] # strings_Split s sep
      else (case strings_Split s sep of
              [] \<Rightarrow> [[c]]
            | f # fs \<Rightarrow> (c # f) # fs))"

definition strings_Contains :: "string \<Rightarrow> char \<Rightarrow> bool" where
  "strings_Contains s c = (c \<in> set s)"

text \<open>
  \<^verbatim>\<open>strings.Fields\<close> splits around runs of white space as \<^verbatim>\<open>unicode.IsSpace\<close> defines
  it. \<open>spaceWidth s\<close> is the number of bytes of the white-space rune whose UTF-8 encoding
  starts \<open>s\<close>, and 0 when \<open>s\<close> starts with anything else: the six ASCII spaces, U+0085,
  U+00A0, U+1680, U+2000 to U+200A, U+2028, U+2029, U+202F, U+205F and U+3000.
\<close>

definition asciiSpace :: "char \<Rightarrow> bool" where
  "asciiSpace c = (c = CHR 0x09 \<or> c = CHR 0x0A \<or> c = CHR 0x0B \<or> c = CHR 0x0C
                   \<or> c = CHR 0x0D \<or> c = CHR 0x20)"

fun spaceWidth :: "string \<Rightarrow> nat" where
  "spaceWidth [] = 0"
| "spaceWidth [c] = (if asciiSpace c then 1 else 0)"
| "spaceWidth [c, d] =
     (if asciiSpace c then 1
      else if c = CHR 0xC2 \<and> (d = CHR 0x85 \<or> d = CHR 0xA0) then 2
      else 0)"
| "spaceWidth (c # d # e # s) =
     (if asciiSpace c then 1
      else if c = CHR 0xC2 \<and> (d = CHR 0x85 \<or> d = CHR 0xA0) then 2
      else if c = CHR 0xE1 \<and> d = CHR 0x9A \<and> e = CHR 0x80 then 3
      else if c = CHR 0xE2 \<and> d = CHR 0x80
              \<and> ((0x80 \<le> (of_char e :: nat) \<and> (of_char e :: nat) \<le> 0x8A)
                 \<or> e = CHR 0xA8 \<or> e = CHR 0xA9 \<or> e = CHR 0xAF) then 3
      else if c = CHR 0xE2 \<and> d = CHR 0x81 \<and> e = CHR 0x9F then 3
      else if c = CHR 0xE3 \<and> d = CHR 0x80 \<and> e = CHR 0x80 then 3
      else 0)"

text \<open>
  \<open>fieldsFrom k cur s\<close> scans \<open>s\<close> with the field \<open>cur\<close> open; \<open>k\<close> counts the
  bytes still to skip of the white-space rune being read.
\<close>

fun fieldsFrom :: "nat \<Rightarrow> string \<Rightarrow> string \<Rightarrow> string list" where
  "fieldsFrom k cur [] = (if cur = [] then [] else [cur])"
| "fieldsFrom k cur (c # s) =
     (if 0 < k then fieldsFrom (k - 1) cur s
      else if 0 < spaceWidth (c # s)
           then (if cur = [] then [] else [cur]) @ fieldsFrom (spaceWidth (c # s) - 1) [] s
           else fieldsFrom 0 (cur @ [c]) s)"

definition strings_Fields :: "string \<Rightarrow> string list" where
  "strings_Fields s = fieldsFrom 0 [] s"

section \<open>strconv.ParseInt in base 16\<close>

text \<open>
  \<^verbatim>\<open>strconv.ParseInt(s, 16, 0)\<close>: an optional sign, then one or more digits
  \<^verbatim>\<open>0-9a-zA-Z\<close> each of value below 16; no prefix and no underscore. The bit size 0
  is the size of \<^verbatim>\<open>int\<close>, 64 bits here. \<open>None\<close> stands for a non-nil error (syntax or
  range), which is all the caller looks at.
\<close>

definition digitVal :: "char \<Rightarrow> nat option" where
  "digitVal d =
     (let n = (of_char d :: nat) in
      if 48 \<le> n \<and> n \<le> 57 then Some (n - 48)
      else if 97 \<le> n \<and> n \<le> 122 then Some (n - 97 + 10)
      else if 65 \<le> n \<and> n \<le> 90 then Some (n - 65 + 10)
      else None)"

fun parseDigits :: "nat \<Rightarrow> string \<Rightarrow> nat option" where
  "parseDigits n [] = Some n"
| "parseDigits n (d # s) =
     (case digitVal d of
        None \<Rightarrow> None
      | Some v \<Rightarrow> if 16 \<le> v then None else parseDigits (n * 16 + v) s)"

definition strconv_ParseUint16 :: "string \<Rightarrow> nat option" where
  "strconv_ParseUint16 s =
     (if s = [] then None
      else (case parseDigits 0 s of
              None \<Rightarrow> None
            | Some n \<Rightarrow> if 2 ^ 64 \<le> n then None else Some n))"

definition strconv_ParseInt16 :: "string \<Rightarrow> int option" where
  "strconv_ParseInt16 s =
     (if s = [] then None
      else
        let neg = (hd s = CHR ''-'');
            s1 = (if hd s = CHR ''+'' \<or> hd s = CHR ''-'' then tl s else s)
        in (case strconv_ParseUint16 s1 of
              None \<Rightarrow> None
            | Some un \<Rightarrow>
                if \<not> neg \<and> 2 ^ 63 \<le> un then None
                else if neg \<and> 2 ^ 63 < un then None
                else Some (if neg then - int un else int un)))"

section \<open>The port checker\<close>

text \<open>
  One iteration of the loop of \<^verbatim>\<open>getUsedPorts\<close> (helper.go, lines 397 to 419). Each
  \<^verbatim>\<open>continue\<close> leaves the set as it is. The index expression \<^verbatim>\<open>parts[3]\<close> is reached
  once the line has at least two fields, a colon in the first and a colon in the second;
  it panics when the line has fewer than four fields.
\<close>

definition usedPortsLine :: "string \<Rightarrow> int set \<Rightarrow> panic + int set" where
  "usedPortsLine line ports =
     (let parts = strings_Fields line in
      if length parts < 2 then Inr ports
      else if \<not> strings_Contains (parts ! 0) CHR '':'' then Inr ports
      else
        let localAddress = strings_Split (parts ! 1) CHR '':'' in
        if length localAddress < 2 then Inr ports
        else if length parts \<le> 3 then Inl IndexOutOfRange
        else
          let state = parts ! 3 in
          if state \<noteq> ''0A'' then Inr ports
          else (case strconv_ParseInt16 (localAddress ! 1) of
                  None \<Rightarrow> Inr ports
                | Some port \<Rightarrow> Inr (insert port ports)))"

fun usedPortsLines :: "string list \<Rightarrow> int set \<Rightarrow> panic + int set" where
  "usedPortsLines [] ports = Inr ports"
| "usedPortsLines (line # lines) ports =
     (case usedPortsLine line ports of
        Inl p \<Rightarrow> Inl p
      | Inr ports' \<Rightarrow> usedPortsLines lines ports')"

definition getUsedPorts :: "string \<Rightarrow> panic + int set" where
  "getUsedPorts data = usedPortsLines (strings_Split data CHR 0x0A) {}"

definition checkPortsInUse :: "string \<Rightarrow> int list \<Rightarrow> panic + error option" where
  "checkPortsInUse data ports =
     (case getUsedPorts data of
        Inl p \<Rightarrow> Inl p
      | Inr used \<Rightarrow>
          let conflicts = filter (\<lambda>port. port \<in> used) ports in
          if 0 < length conflicts
          then Inr (Some (Errorf ''the following required ports are in use: %v'' [V conflicts]))
          else Inr None)"

definition tcpPorts :: "int list" where
  "tcpPorts = [53, 80, 443, 4001, 7001, 8443, 10250]"

text \<open>
  \<^verbatim>\<open>TestPorts\<close> (lines 82 to 98). \<open>portData\<close> is what the privileged container
  running \<^verbatim>\<open>cat /proc/net/tcp /proc/net/tcp6\<close> returned: an error or its output.
\<close>

definition TestPorts :: "error + string \<Rightarrow> panic + error option" where
  "TestPorts portData =
     (case portData of
        Inl err \<Rightarrow>
          Inr (Some (NewError ''Cannot get TCP port information from Kubernetes host'' []
                       (Some err)))
      | Inr data \<Rightarrow>
          (case checkPortsInUse data tcpPorts of
             Inl p \<Rightarrow> Inl p
           | Inr (Some err) \<Rightarrow> Inr (Some (NewError ''TCP port conflict'' [] (Some err)))
           | Inr None \<Rightarrow> Inr None))"

section \<open>The helper, its options and the world it acts on\<close>

text \<open>
  The four collaborator handles of \<^verbatim>\<open>Helper\<close> carry no data of their own; what the
  collaborators answer is given by \<open>responses\<close> below. The field \<^verbatim>\<open>image\<close> is named
  \<open>imageName\<close>.
\<close>

record Helper =
  publicHost :: string
  imageName :: string
  containerName :: string
  routingSuffix :: string

record StartOptions =
  ServerIP :: string
  UseSharedVolume :: bool
  ImageTag :: string
  HostVolumesDir :: string
  HostConfigDir :: string
  HostDataDir :: string
  UseExistingConfig :: bool
  Environment :: "string list"
  LogLevel :: int

text \<open>
  What \<^verbatim>\<open>Start\<close> does to the outside, in order: text written to \<^verbatim>\<open>out\<close>, the
  container run to completion (\<^verbatim>\<open>Run\<close>: image, binds, environment, command), the
  container started (\<^verbatim>\<open>Start\<close>: image, name, binds, environment, command), sleeps in
  milliseconds, the state query, the TCP dial wait and the HTTP requests.
\<close>

datatype event =
    Fprintf string
  | RunContainer string "string list" "string list" "string list"
  | StartContainer string string "string list" "string list" "string list"
  | Sleep nat
  | GetContainerState string
  | WaitForSuccessfulDial string
  | HttpGet string

text \<open>
  The local file system is observed through the temporary directories only: \<open>staged\<close>
  maps the path of each existing one to its tree, a map from the path below the directory
  to the file's bytes. Temporary directories are siblings below \<^verbatim>\<open>os.TempDir()\<close>, so
  removing one leaves the others alone.
\<close>

record world =
  staged :: "string \<rightharpoonup> (string \<rightharpoonup> string)"
  trace :: "event list"

definition emit :: "event \<Rightarrow> world \<Rightarrow> world" where
  "emit e w = w\<lparr>trace := trace w @ [e]\<rparr>"

text \<open>The result of \<^verbatim>\<open>client.Get\<close>: a transport error, or a response with its status
  code and what \<^verbatim>\<open>ioutil.ReadAll(resp.Body)\<close> gives.\<close>

datatype http_result =
    TransportError error
  | Response int "error + string"

text \<open>
  The answers of the collaborators, one field for each call that \<^verbatim>\<open>Start\<close> can make:
  \<^item> \<open>probeTempDir\<close>, \<open>probeCopy\<close>: \<^verbatim>\<open>ioutil.TempDir\<close> (an error, or the random
    suffix it draws) and \<^verbatim>\<open>CopyFromHost\<close> (an error, or the tree found on the host) in
    the \<^verbatim>\<open>copyConfig\<close> of line 185;
  \<^item> \<open>createConfigRun\<close>: the generation command of line 216;
  \<^item> \<open>createTempDir\<close>, \<open>createCopy\<close>: the same two calls in the \<^verbatim>\<open>copyConfig\<close> of
    line 220;
  \<^item> \<open>writeFile\<close>, \<open>copyToHost\<close>: \<^verbatim>\<open>ioutil.WriteFile\<close> and
    \<^verbatim>\<open>CopyMasterConfigToHost\<close> in \<^verbatim>\<open>updateConfig\<close>;
  \<^item> \<open>hostname\<close>: \<^verbatim>\<open>hostHelper.Hostname\<close>;
  \<^item> \<open>daemonStart\<close>: the \<^verbatim>\<open>Start()\<close> of line 257;
  \<^item> \<open>containerState\<close>: \<^verbatim>\<open>GetContainerState\<close>, an error or the running flag;
  \<^item> \<open>dial\<close>: \<^verbatim>\<open>WaitForSuccessfulDial\<close>;
  \<^item> \<open>transportFor\<close>: \<^verbatim>\<open>cmdutil.TransportFor\<close>;
  \<^item> \<open>httpGets\<close>: the results of the successive \<^verbatim>\<open>client.Get\<close> calls.
\<close>

record responses =
  probeTempDir :: "error + string"
  probeCopy :: "error + (string \<rightharpoonup> string)"
  createConfigRun :: "error option"
  createTempDir :: "error + string"
  createCopy :: "error + (string \<rightharpoonup> string)"
  writeFile :: "error option"
  copyToHost :: "error option"
  hostname :: "error + string"
  daemonStart :: "error option"
  containerState :: "error + bool"
  dial :: "error option"
  transportFor :: "error option"
  httpGets :: "http_result list"

text \<open>
  The configuration codec \<^verbatim>\<open>configapilatest\<close> is a parameter: \<open>decodeYAML\<close> is the
  parsing done by \<^verbatim>\<open>ReadMasterConfig\<close> on the bytes of the file, \<open>WriteYAML\<close> the
  serialisation. A master configuration is its routing subdomain and the rest.
\<close>

record 'c MasterConfig =
  Subdomain :: string
  Rest :: 'c

record 'c codec =
  decodeYAML :: "string \<Rightarrow> error + 'c MasterConfig"
  WriteYAML :: "'c MasterConfig \<Rightarrow> error + string"

text \<open>
  Modelled from the spec: the codec \<^verbatim>\<open>configapilatest\<close> (\<^verbatim>\<open>ReadMasterConfig\<close>,
  \<^verbatim>\<open>WriteYAML\<close>) is not part of helper.go. Section 1 of the specification takes it as
  correct and section 8 names its round trip: parsing what was serialised gives the
  configuration back.
\<close>

definition codecRoundTrip :: "'c codec \<Rightarrow> bool" where
  "codecRoundTrip cd =
     (\<forall>cfg bytes. WriteYAML cd cfg = Inr bytes \<longrightarrow> decodeYAML cd bytes = Inr cfg)"

section \<open>File operations\<close>

definition os_TempDir :: string where
  "os_TempDir = ''/tmp''"

text \<open>
  \<^verbatim>\<open>ioutil.TempDir("", prefix)\<close> makes the directory
  \<^verbatim>\<open>os.TempDir()/prefix+suffix\<close> with a random suffix and fails when it cannot: with
  the error of the answer, or because the name is taken.
\<close>

definition ioutil_TempDir :: "error + string \<Rightarrow> string \<Rightarrow> world \<Rightarrow> (error + string) \<times> world" where
  "ioutil_TempDir answer prefix w =
     (case answer of
        Inl err \<Rightarrow> (Inl err, w)
      | Inr suffix \<Rightarrow>
          let name = os_TempDir @ ''/'' @ prefix @ suffix in
          if staged w name \<noteq> None then (Inl (Collaborator ''file exists''), w)
          else (Inr name, w\<lparr>staged := (staged w)(name \<mapsto> Map.empty)\<rparr>))"

text \<open>\<^verbatim>\<open>os.RemoveAll\<close>; the empty path names nothing and removing it is no error.\<close>

definition os_RemoveAll :: "string \<Rightarrow> world \<Rightarrow> world" where
  "os_RemoveAll path w = (if path = [] then w else w\<lparr>staged := (staged w)(path := None)\<rparr>)"

text \<open>
  \<open>masterConfigYaml\<close> is the path below \<open>configDir\<close> of the file that
  \<^verbatim>\<open>filepath.Join(configDir, "master", "master-config.yaml")\<close> names.
\<close>

definition masterConfigYaml :: string where
  "masterConfigYaml = ''master/master-config.yaml''"

definition readFile :: "world \<Rightarrow> string \<Rightarrow> string \<Rightarrow> string option" where
  "readFile w dir file = (case staged w dir of None \<Rightarrow> None | Some tree \<Rightarrow> tree file)"

text \<open>\<^verbatim>\<open>os.Stat\<close> of a file below a directory: \<open>None\<close> is a nil error.\<close>

definition os_Stat :: "world \<Rightarrow> string \<Rightarrow> string \<Rightarrow> error option" where
  "os_Stat w dir file =
     (case readFile w dir file of
        None \<Rightarrow> Some (Collaborator ''no such file or directory'')
      | Some bytes \<Rightarrow> None)"

text \<open>\<^verbatim>\<open>ioutil.WriteFile\<close>: a failure leaves the file as it was.\<close>

definition ioutil_WriteFile ::
  "error option \<Rightarrow> string \<Rightarrow> string \<Rightarrow> string \<Rightarrow> world \<Rightarrow> error option \<times> world" where
  "ioutil_WriteFile answer dir file bytes w =
     (case answer of
        Some err \<Rightarrow> (Some err, w)
      | None \<Rightarrow>
          (case staged w dir of
             None \<Rightarrow> (Some (Collaborator ''no such file or directory''), w)
           | Some tree \<Rightarrow> (None, w\<lparr>staged := (staged w)(dir \<mapsto> tree(file \<mapsto> bytes))\<rparr>)))"

definition ReadMasterConfig :: "'c codec \<Rightarrow> world \<Rightarrow> string \<Rightarrow> error + 'c MasterConfig" where
  "ReadMasterConfig cd w dir =
     (case readFile w dir masterConfigYaml of
        None \<Rightarrow> Inl (Collaborator ''no such file or directory'')
      | Some bytes \<Rightarrow> decodeYAML cd bytes)"

section \<open>Staging and patching the configuration\<close>

text \<open>
  \<^verbatim>\<open>copyConfig\<close> (lines 329 to 342), with the answers of its two collaborator calls.
  The result is the pair that the Go function returns, and the world after it.
\<close>

definition copyConfig ::
  "error + string \<Rightarrow> error + (string \<rightharpoonup> string) \<Rightarrow> string \<Rightarrow> world
     \<Rightarrow> (string \<times> error option) \<times> world" where
  "copyConfig tempDirAnswer copyAnswer hostDir w =
     (case ioutil_TempDir tempDirAnswer ''openshift-config'' w of
        (Inl err, w1) \<Rightarrow> (([], Some err), w1)
      | (Inr tempDir, w1) \<Rightarrow>
          (case copyAnswer of
             Inl err \<Rightarrow> (([], Some err), os_RemoveAll tempDir w1)
           | Inr tree \<Rightarrow> ((tempDir, None), w1\<lparr>staged := (staged w1)(tempDir \<mapsto> tree)\<rparr>)))"

text \<open>\<^verbatim>\<open>updateConfig\<close> (lines 344 to 368).\<close>

definition updateConfig ::
  "'c codec \<Rightarrow> responses \<Rightarrow> Helper \<Rightarrow> string \<Rightarrow> string \<Rightarrow> string \<Rightarrow> world
     \<Rightarrow> error option \<times> world" where
  "updateConfig cd r h configDir hostDir serverIP w =
     (case ReadMasterConfig cd w configDir of
        Inl err \<Rightarrow> (Some err, w)
      | Inr cfg \<Rightarrow>
          let cfg' = (if 0 < length (routingSuffix h)
                      then cfg\<lparr>Subdomain := routingSuffix h\<rparr>
                      else cfg\<lparr>Subdomain := serverIP @ ''.xip.io''\<rparr>)
          in (case WriteYAML cd cfg' of
                Inl err \<Rightarrow> (Some err, w)
              | Inr cfgBytes \<Rightarrow>
                  (case ioutil_WriteFile (writeFile r) configDir masterConfigYaml cfgBytes w of
                     (Some err, w1) \<Rightarrow> (Some err, w1)
                   | (None, w1) \<Rightarrow> (copyToHost r, w1))))"

text \<open>\<^verbatim>\<open>getOpenShiftConfigFiles\<close> (lines 370 to 378).\<close>

definition getOpenShiftConfigFiles :: "responses \<Rightarrow> string \<times> string \<times> error option" where
  "getOpenShiftConfigFiles r =
     (case hostname r of
        Inl err \<Rightarrow> ([], [], Some err)
      | Inr name \<Rightarrow>
          (''/var/lib/origin/openshift.local.config/master/master-config.yaml'',
           ''/var/lib/origin/openshift.local.config/node-'' @ name @ ''/node-config.yaml'',
           None))"

section \<open>Start\<close>

definition Master :: "Helper \<Rightarrow> string \<Rightarrow> string" where
  "Master h ip = ''https://'' @ ip @ '':8443''"

definition healthzReadyURL :: "Helper \<Rightarrow> string \<Rightarrow> string" where
  "healthzReadyURL h ip = Master h ip @ ''/healthz/ready''"

text \<open>\<^verbatim>\<open>masterHTTPClient\<close> (lines 315 to 325): the error of \<^verbatim>\<open>TransportFor\<close>, if any.\<close>

definition masterHTTPClient :: "responses \<Rightarrow> string \<Rightarrow> error option" where
  "masterHTTPClient r localConfig = transportFor r"

text \<open>Decimal digits of a number, for the verb \<^verbatim>\<open>%d\<close> in a command line.\<close>

fun itoa :: "nat \<Rightarrow> string" where
  "itoa n = (if n < 10 then [char_of (48 + n)]
             else itoa (n div 10) @ [char_of (48 + n mod 10)])"

declare itoa.simps [simp del]

definition openShiftContainerBinds :: "string list" where
  "openShiftContainerBinds =
     [''/:/rootfs:ro'', ''/var/run:/var/run:rw'', ''/sys:/sys:ro'',
      ''/var/lib/docker:/var/lib/docker'']"

text \<open>Lines 165 to 174: the bind mounts and the environment of both containers.\<close>

definition startBinds :: "StartOptions \<Rightarrow> string list" where
  "startBinds opt =
     openShiftContainerBinds
     @ [if UseSharedVolume opt
        then HostVolumesDir opt @ '':'' @ HostVolumesDir opt @ '':shared''
        else HostVolumesDir opt @ '':'' @ HostVolumesDir opt]
     @ [HostConfigDir opt @ '':/var/lib/origin/openshift.local.config:z'']"

definition startEnv :: "StartOptions \<Rightarrow> string list" where
  "startEnv opt =
     (if UseSharedVolume opt then [''OPENSHIFT_CONTAINERIZED=false''] else [])
     @ Environment opt"

text \<open>
  \<^verbatim>\<open>cleanupConfig\<close> (lines 179 to 181) removes whatever \<^verbatim>\<open>configDir\<close> holds when it
  is called; an error of the removal is logged only.
\<close>

definition cleanupConfig :: "string \<Rightarrow> world \<Rightarrow> world" where
  "cleanupConfig configDir w = os_RemoveAll configDir w"

text \<open>
  Lines 182 to 192: the probe for an existing configuration. The result is the value of
  \<^verbatim>\<open>configDir\<close> and of \<^verbatim>\<open>skipCreateConfig\<close> after it.
\<close>

definition probeExistingConfig ::
  "responses \<Rightarrow> StartOptions \<Rightarrow> world \<Rightarrow> (string \<times> bool) \<times> world" where
  "probeExistingConfig r opt w =
     (if UseExistingConfig opt
      then (case copyConfig (probeTempDir r) (probeCopy r) (HostConfigDir opt) w of
              ((configDir, Some err), w1) \<Rightarrow> ((configDir, False), w1)
            | ((configDir, None), w1) \<Rightarrow>
                (case os_Stat w1 configDir masterConfigYaml of
                   None \<Rightarrow> ((configDir, True), w1)
                 | Some err \<Rightarrow> ((configDir, False), w1)))
      else (([], False), w))"

definition createConfigCmd :: "Helper \<Rightarrow> StartOptions \<Rightarrow> string list" where
  "createConfigCmd h opt =
     [''start'',
      ''--images=openshift/origin-${component}:'' @ ImageTag opt,
      ''--master='' @ ServerIP opt,
      ''--volume-dir='' @ HostVolumesDir opt,
      ''--dns=0.0.0.0:53'',
      ''--write-config=/var/lib/origin/openshift.local.config'']
     @ (if 0 < length (publicHost h)
        then [''--public-master=https://'' @ publicHost h @ '':8443''] else [])"

text \<open>
  A step of \<^verbatim>\<open>Start\<close> either returns from the function (\<open>Inl\<close>, with the pair
  returned) or goes on with the value of \<^verbatim>\<open>configDir\<close> (\<open>Inr\<close>).

  Lines 195 to 229: the generation of a fresh configuration.
\<close>

definition createConfig ::
  "'c codec \<Rightarrow> responses \<Rightarrow> Helper \<Rightarrow> StartOptions \<Rightarrow> world
     \<Rightarrow> ((string \<times> error option) + string) \<times> world" where
  "createConfig cd r h opt w =
     (let w1 = emit (Fprintf (''Creating initial OpenShift configuration'' @ [CHR 0x0A])) w;
          w2 = emit (RunContainer (imageName h) (startBinds opt) (startEnv opt)
                       (createConfigCmd h opt)) w1
      in (case createConfigRun r of
            Some err \<Rightarrow>
              (Inl ([], Some (NewError ''could not create OpenShift configuration'' []
                                (Some err))), w2)
          | None \<Rightarrow>
              (case copyConfig (createTempDir r) (createCopy r) (HostConfigDir opt) w2 of
                 ((configDir, Some err), w3) \<Rightarrow>
                   (Inl ([], Some (NewError ''could not copy OpenShift configuration'' []
                                     (Some err))), w3)
               | ((configDir, None), w3) \<Rightarrow>
                   (case updateConfig cd r h configDir (HostConfigDir opt) (ServerIP opt) w3 of
                      (Some err, w4) \<Rightarrow>
                        (Inl ([], Some (NewError ''could not update OpenShift configuration'' []
                                          (Some err))), cleanupConfig configDir w4)
                    | (None, w4) \<Rightarrow> (Inr configDir, w4)))))"

text \<open>Lines 178 to 229: the probe, then the generation unless it is skipped.\<close>

definition resolveConfig ::
  "'c codec \<Rightarrow> responses \<Rightarrow> Helper \<Rightarrow> StartOptions \<Rightarrow> world
     \<Rightarrow> ((string \<times> error option) + string) \<times> world" where
  "resolveConfig cd r h opt w =
     (case probeExistingConfig r opt w of
        ((configDir, skipCreateConfig), w1) \<Rightarrow>
          if \<not> skipCreateConfig then createConfig cd r h opt w1
          else (Inr configDir, w1))"

definition startCmd :: "StartOptions \<Rightarrow> string \<Rightarrow> string \<Rightarrow> string list" where
  "startCmd opt masterConfig nodeConfig =
     [''start'', ''--master-config='' @ masterConfig, ''--node-config='' @ nodeConfig]
     @ (if 0 < LogLevel opt then [''--loglevel='' @ itoa (nat (LogLevel opt))] else [])"

text \<open>Lines 230 to 260: the paths of the configuration files and the launch of the daemon.\<close>

definition launchDaemon ::
  "responses \<Rightarrow> Helper \<Rightarrow> StartOptions \<Rightarrow> string \<Rightarrow> world
     \<Rightarrow> ((string \<times> error option) + string) \<times> world" where
  "launchDaemon r h opt configDir w =
     (case getOpenShiftConfigFiles r of
        (masterConfig, nodeConfig, Some err) \<Rightarrow>
          (Inl ([], Some (NewError ''could not get OpenShift configuration file paths'' []
                            (Some err))), cleanupConfig configDir w)
      | (masterConfig, nodeConfig, None) \<Rightarrow>
          let w1 = emit (Fprintf (''Starting OpenShift using container '' @ [CHR 0x27]
                                  @ containerName h @ [CHR 0x27, CHR 0x0A])) w;
              binds = startBinds opt
                      @ (if 0 < length (HostDataDir opt)
                         then [HostDataDir opt @ '':/var/lib/origin/openshift.local.etcd:z'']
                         else []);
              w2 = emit (StartContainer (imageName h) (containerName h) binds (startEnv opt)
                           (startCmd opt masterConfig nodeConfig)) w1
          in (case daemonStart r of
                Some err \<Rightarrow> (Inl ([], Some (NewError ''cannot start OpenShift daemon'' []
                                              (Some err))), w2)
              | None \<Rightarrow> (Inr configDir, w2)))"

text \<open>
  Lines 283 to 302: the readiness loop, over the results of the successive requests.
  \<open>err\<close> is the variable \<^verbatim>\<open>err\<close> of \<^verbatim>\<open>Start\<close>, which line 286 hands to
  \<^verbatim>\<open>WithCause\<close>; line 301 hands over \<^verbatim>\<open>ierr\<close>, which is nil there. The loop ends with
  \<open>Break\<close> (line 289), with a return from \<^verbatim>\<open>Start\<close>, or not at all: \<open>Polling\<close> says that
  every result given was transient, so the loop is still running after them.
\<close>

datatype poll = Break | Return string "error option" | Polling

fun readinessLoop ::
  "Helper \<Rightarrow> string \<Rightarrow> error option \<Rightarrow> http_result list \<Rightarrow> world \<Rightarrow> poll \<times> world" where
  "readinessLoop h ip err [] w = (Polling, w)"
| "readinessLoop h ip err (TransportError ierr # rs) w =
     (Return [] (Some (NewError ''cannot access master readiness URL %s''
                         [S (healthzReadyURL h ip)] err)),
      emit (HttpGet (healthzReadyURL h ip)) w)"
| "readinessLoop h ip err (Response StatusCode Body # rs) w =
     (let w1 = emit (HttpGet (healthzReadyURL h ip)) w in
      if StatusCode = 200 then (Break, w1)
      else if StatusCode = 503 \<or> StatusCode = 403
           then readinessLoop h ip err rs (emit (Sleep 500) w1)
           else
             let responseBody = (case Body of Inl rerr \<Rightarrow> [] | Inr body \<Rightarrow> body)
             in (Return [] (Some (NewError ''server is not ready. Response (%d): %s''
                                    [D StatusCode, S responseBody] None)), w1))"

text \<open>
  Lines 262 to 305: the grace period, the state query, the dial wait, the HTTP client and
  the readiness loop. \<open>None\<close> is a call of \<^verbatim>\<open>Start\<close> that has not returned.
\<close>

definition initialStatusCheckWait :: nat where
  "initialStatusCheckWait = 4000"

definition awaitReady ::
  "responses \<Rightarrow> Helper \<Rightarrow> StartOptions \<Rightarrow> string \<Rightarrow> world
     \<Rightarrow> (string \<times> error option) option \<times> world" where
  "awaitReady r h opt configDir w =
     (let w1 = emit (GetContainerState (containerName h))
                 (emit (Sleep initialStatusCheckWait) w)
      in (case containerState r of
            Inl err \<Rightarrow>
              (Some ([], Some (NewError ''cannot get state of OpenShift container %s''
                                 [S (containerName h)] (Some err))), w1)
          | Inr running \<Rightarrow>
              if \<not> running then (Some ([], Some (ErrOpenShiftFailedToStart (containerName h))), w1)
              else
                let w2 = emit (Fprintf (''Waiting for API server to start listening''
                                        @ [CHR 0x0A])) w1;
                    masterHost = ServerIP opt @ '':8443'';
                    w3 = emit (WaitForSuccessfulDial masterHost) w2
                in (case dial r of
                      Some err \<Rightarrow>
                        (Some ([], Some (ErrTimedOutWaitingForStart (containerName h))), w3)
                    | None \<Rightarrow>
                        (case masterHTTPClient r configDir of
                           Some err \<Rightarrow> (Some ([], Some err), w3)
                         | None \<Rightarrow>
                             (case readinessLoop h (ServerIP opt) None (httpGets r) w3 of
                                (Polling, w4) \<Rightarrow> (None, w4)
                              | (Return path err, w4) \<Rightarrow> (Some (path, err), w4)
                              | (Break, w4) \<Rightarrow>
                                  (Some (configDir, None),
                                   emit (Fprintf (''OpenShift server started''
                                                  @ [CHR 0x0A])) w4))))))"

text \<open>\<^verbatim>\<open>Start\<close> (lines 164 to 305).\<close>

definition Start ::
  "'c codec \<Rightarrow> responses \<Rightarrow> Helper \<Rightarrow> StartOptions \<Rightarrow> world
     \<Rightarrow> (string \<times> error option) option \<times> world" where
  "Start cd r h opt w =
     (case resolveConfig cd r h opt w of
        (Inl ret, w1) \<Rightarrow> (Some ret, w1)
      | (Inr configDir, w1) \<Rightarrow>
          (case launchDaemon r h opt configDir w1 of
             (Inl ret, w2) \<Rightarrow> (Some ret, w2)
           | (Inr configDir', w2) \<Rightarrow> awaitReady r h opt configDir' w2))"

section \<open>Observations on a run\<close>

text \<open>The invocations of the generation command, and the HTTP requests, in a trace.\<close>

fun isRunContainer :: "event \<Rightarrow> bool" where
  "isRunContainer (RunContainer img binds env cmd) = True"
| "isRunContainer e = False"

definition generations :: "world \<Rightarrow> event list" where
  "generations w = filter isRunContainer (trace w)"

fun isHttpGet :: "event \<Rightarrow> bool" where
  "isHttpGet (HttpGet url) = True"
| "isHttpGet e = False"

definition requests :: "world \<Rightarrow> event list" where
  "requests w = filter isHttpGet (trace w)"

section \<open>A concrete run\<close>

text \<open>
  The scenario of section 8 of the specification: server IP 10.0.0.5, no existing
  configuration asked for, every collaborator succeeding, the container running and the
  readiness endpoint answering 200 at once. The codec of the scenario keeps the routing
  subdomain alone in the file.
\<close>

definition sampleHelper :: Helper where
  "sampleHelper = \<lparr>publicHost = [], imageName = ''openshift/origin'',
                    containerName = ''origin'', routingSuffix = []\<rparr>"

definition sampleOptions :: StartOptions where
  "sampleOptions = \<lparr>ServerIP = ''10.0.0.5'', UseSharedVolume = False, ImageTag = ''latest'',
                     HostVolumesDir = ''/var/lib/origin/openshift.local.volumes'',
                     HostConfigDir = ''/var/lib/origin/openshift.local.config'',
                     HostDataDir = [], UseExistingConfig = False, Environment = [],
                     LogLevel = 0\<rparr>"

definition sampleWorld :: world where
  "sampleWorld = \<lparr>staged = Map.empty, trace = []\<rparr>"

definition sampleCodec :: "unit codec" where
  "sampleCodec = \<lparr>decodeYAML = (\<lambda>bytes. Inr \<lparr>Subdomain = bytes, Rest = ()\<rparr>),
                   WriteYAML = (\<lambda>cfg. Inr (Subdomain cfg))\<rparr>"

definition sampleResponses :: responses where
  "sampleResponses =
     \<lparr>probeTempDir = Inr ''123456789'',
      probeCopy = Inr [masterConfigYaml \<mapsto> ''router.default.local''],
      createConfigRun = None,
      createTempDir = Inr ''987654321'',
      createCopy = Inr [masterConfigYaml \<mapsto> ''router.default.local''],
      writeFile = None, copyToHost = None, hostname = Inr ''node1'',
      daemonStart = None, containerState = Inr True, dial = None, transportFor = None,
      httpGets = [Response 200 (Inr ''ok'')]\<rparr>"

section \<open>Unfolding the model\<close>

lemmas sample_defs =
  sampleHelper_def sampleOptions_def sampleWorld_def sampleCodec_def sampleResponses_def

lemmas Start_defs =
  Start_def resolveConfig_def probeExistingConfig_def createConfig_def copyConfig_def
  ioutil_TempDir_def os_RemoveAll_def os_TempDir_def updateConfig_def ReadMasterConfig_def
  readFile_def ioutil_WriteFile_def os_Stat_def launchDaemon_def getOpenShiftConfigFiles_def
  awaitReady_def masterHTTPClient_def cleanupConfig_def emit_def masterConfigYaml_def Let_def

lemmas port_defs =
  checkPortsInUse_def getUsedPorts_def usedPortsLine_def strings_Fields_def asciiSpace_def
  strings_Contains_def strconv_ParseInt16_def strconv_ParseUint16_def digitVal_def
  tcpPorts_def

section \<open>The port checker on short lines\<close>

text \<open>
  C5. The claim is that \<^verbatim>\<open>getUsedPorts\<close> never faults, and that a line with fewer than
  four fields is skipped without an out-of-range access. The guard of line 399 lets every
  line with two fields through, and line 411 reads the fourth: on a line with two or three
  fields whose first two fields contain a colon, the function panics.
\<close>

theorem getUsedPorts_short_line_panics:
  "getUsedPorts ''0: 0100007F:0035'' = Inl IndexOutOfRange
   \<and> getUsedPorts ''0: 0100007F:0035 00000000:0000'' = Inl IndexOutOfRange"
  by (simp add: port_defs)

text \<open>
  C4. The claim is that, for every text with a line in state \<^verbatim>\<open>0A\<close> on a required port,
  \<^verbatim>\<open>checkPortsInUse\<close> returns an error that reports the port. Alone, the line for port
  53 (hexadecimal 0035) is reported; followed by a line of two fields, the same text makes
  the function panic at line 411 and nothing is returned.
\<close>

theorem checkPortsInUse_panics_beside_listening_port:
  "checkPortsInUse ''0: 00000000:0035 00000000:0000 0A'' tcpPorts
     = Inr (Some (Errorf ''the following required ports are in use: %v'' [V [53]]))
   \<and> checkPortsInUse (''0: 00000000:0035 00000000:0000 0A'' @ [CHR 0x0A] @ ''1: 00000000:0050'')
        tcpPorts = Inl IndexOutOfRange"
  by (simp add: port_defs)

section \<open>The port checker on texts without a short line\<close>

text \<open>
  Where \<^verbatim>\<open>getUsedPorts\<close> does not panic, the set it returns holds the ports of the
  lines in state \<^verbatim>\<open>0A\<close>, and \<^verbatim>\<open>checkPortsInUse\<close> reports the required ports among
  them, or returns nil when there is none.
\<close>

lemma usedPortsLine_accumulates:
  "usedPortsLine line ports =
     (case usedPortsLine line {} of Inl p \<Rightarrow> Inl p | Inr new \<Rightarrow> Inr (new \<union> ports))"
  by (simp add: usedPortsLine_def Let_def split: option.splits)

lemma usedPortsLines_accumulates:
  "usedPortsLines lines ports = Inr used \<Longrightarrow>
     used = ports \<union> {port. \<exists>line \<in> set lines. usedPortsLine line {} = Inr {port}}
     \<and> (\<forall>line \<in> set lines. usedPortsLine line {} \<noteq> Inl IndexOutOfRange)"
proof (induction lines arbitrary: ports)
  case Nil
  then show ?case by simp
next
  case (Cons line lines)
  show ?case
  proof (cases "usedPortsLine line {}")
    case (Inl p)
    then show ?thesis using Cons.prems usedPortsLine_accumulates [of line ports] by simp
  next
    case (Inr new)
    then have step: "usedPortsLines lines (new \<union> ports) = Inr used"
      using Cons.prems usedPortsLine_accumulates [of line ports] by simp
    have new: "new = {} \<or> (\<exists>port. new = {port})"
      using Inr by (auto simp: usedPortsLine_def Let_def split: if_splits option.splits)
    from Cons.IH [OF step] new Inr show ?thesis by auto
  qed
qed

lemma usedPortsLine_listening:
  assumes "4 \<le> length (strings_Fields line)"
      and "CHR '':'' \<in> set (strings_Fields line ! 0)"
      and "2 \<le> length (strings_Split (strings_Fields line ! 1) CHR '':'')"
      and "strings_Fields line ! 3 = ''0A''"
      and "strconv_ParseInt16 (strings_Split (strings_Fields line ! 1) CHR '':'' ! 1) = Some port"
  shows "usedPortsLine line ports = Inr (insert port ports)"
  using assms by (simp add: usedPortsLine_def Let_def strings_Contains_def)

lemma usedPortsLine_other_state:
  assumes "4 \<le> length (strings_Fields line)"
      and "strings_Fields line ! 3 \<noteq> ''0A''"
  shows "usedPortsLine line ports = Inr ports"
  using assms by (simp add: usedPortsLine_def Let_def)

lemma checkPortsInUse_without_panic:
  assumes "getUsedPorts data = Inr used"
  shows "used = {port. \<exists>line \<in> set (strings_Split data CHR 0x0A).
                         usedPortsLine line {} = Inr {port}}"
    and "checkPortsInUse data ports =
           Inr (if filter (\<lambda>port. port \<in> used) ports = [] then None
                else Some (Errorf ''the following required ports are in use: %v''
                             [V (filter (\<lambda>port. port \<in> used) ports)]))"
proof -
  show "used = {port. \<exists>line \<in> set (strings_Split data CHR 0x0A).
                         usedPortsLine line {} = Inr {port}}"
    using usedPortsLines_accumulates [of "strings_Split data CHR 0x0A" "{}" used] assms
    by (simp add: getUsedPorts_def)
  show "checkPortsInUse data ports =
           Inr (if filter (\<lambda>port. port \<in> used) ports = [] then None
                else Some (Errorf ''the following required ports are in use: %v''
                             [V (filter (\<lambda>port. port \<in> used) ports)]))"
    using assms by (simp add: checkPortsInUse_def Let_def)
qed

lemma checkPortsInUse_reports_listening_port:
  assumes "getUsedPorts data = Inr used"
      and "line \<in> set (strings_Split data CHR 0x0A)"
      and "4 \<le> length (strings_Fields line)"
      and "CHR '':'' \<in> set (strings_Fields line ! 0)"
      and "2 \<le> length (strings_Split (strings_Fields line ! 1) CHR '':'')"
      and "strings_Fields line ! 3 = ''0A''"
      and "strconv_ParseInt16 (strings_Split (strings_Fields line ! 1) CHR '':'' ! 1) = Some port"
      and "port \<in> set ports"
  shows "checkPortsInUse data ports =
           Inr (Some (Errorf ''the following required ports are in use: %v''
                        [V (filter (\<lambda>port. port \<in> used) ports)]))"
    and "port \<in> set (filter (\<lambda>port. port \<in> used) ports)"
proof -
  have "usedPortsLine line {} = Inr {port}"
    using usedPortsLine_listening [OF assms(3-7)] by simp
  then have "port \<in> used"
    using checkPortsInUse_without_panic(1) [OF assms(1)] assms(2) by blast
  then show p: "port \<in> set (filter (\<lambda>port. port \<in> used) ports)"
    using assms(8) by simp
  then have "filter (\<lambda>port. port \<in> used) ports \<noteq> []"
    by (metis empty_iff empty_set)
  then show "checkPortsInUse data ports =
           Inr (Some (Errorf ''the following required ports are in use: %v''
                        [V (filter (\<lambda>port. port \<in> used) ports)]))"
    using checkPortsInUse_without_panic(2) [OF assms(1)] by simp
qed

lemma usedPortsLine_skips:
  assumes "length (strings_Fields line) < 2 \<or> CHR '':'' \<notin> set (strings_Fields line ! 0)"
  shows "usedPortsLine line ports = Inr ports"
  using assms by (auto simp: usedPortsLine_def Let_def strings_Contains_def)

lemma usedPortsLine_panics_iff:
  "usedPortsLine line ports = Inl IndexOutOfRange \<longleftrightarrow>
     (length (strings_Fields line) = 2 \<or> length (strings_Fields line) = 3)
     \<and> CHR '':'' \<in> set (strings_Fields line ! 0)
     \<and> 2 \<le> length (strings_Split (strings_Fields line ! 1) CHR '':'')"
  by (auto simp: usedPortsLine_def Let_def strings_Contains_def split: option.splits)

section \<open>Failures after the launch\<close>

text \<open>
  C1. The claim is that every failure exit after the staged directory was created removes
  it, in particular the exit with \<^verbatim>\<open>FailedToStart\<close>. In the scenario of section 8 with
  the state query answering "not running", \<^verbatim>\<open>Start\<close> returns the empty path and
  \<^verbatim>\<open>ErrOpenShiftFailedToStart\<close>, and the directory staged by this call is still there with
  its patched master configuration: line 269 returns without calling
  \<^verbatim>\<open>cleanupConfig\<close>. The failure exits of lines 226 and 232 do call it: in the same
  scenario with the host name failing, the directory is gone when \<^verbatim>\<open>Start\<close> returns.
\<close>

theorem Start_FailedToStart_keeps_staged_directory:
  "fst (Start sampleCodec (sampleResponses\<lparr>containerState := Inr False\<rparr>) sampleHelper
          sampleOptions sampleWorld)
     = Some ([], Some (ErrOpenShiftFailedToStart ''origin''))
   \<and> staged (snd (Start sampleCodec (sampleResponses\<lparr>containerState := Inr False\<rparr>)
                    sampleHelper sampleOptions sampleWorld)) ''/tmp/openshift-config987654321''
     = Some [masterConfigYaml \<mapsto> ''10.0.0.5.xip.io'']
   \<and> fst (Start sampleCodec (sampleResponses\<lparr>hostname := Inl (Collaborator ''no hostname'')\<rparr>)
            sampleHelper sampleOptions sampleWorld)
     = Some ([], Some (NewError ''could not get OpenShift configuration file paths'' []
                         (Some (Collaborator ''no hostname''))))
   \<and> staged (snd (Start sampleCodec
                    (sampleResponses\<lparr>hostname := Inl (Collaborator ''no hostname'')\<rparr>)
                    sampleHelper sampleOptions sampleWorld)) ''/tmp/openshift-config987654321''
     = None"
  by (simp add: Start_defs sample_defs)

section \<open>The readiness loop\<close>

text \<open>
  C2. The claim is that a transport error of the HTTP request ends \<^verbatim>\<open>Start\<close> with an
  error whose cause is that transport error. With the first request refused, the error
  returned has no cause: line 286 hands \<^verbatim>\<open>err\<close>, which is nil since line 280, to
  \<^verbatim>\<open>WithCause\<close>, and not \<^verbatim>\<open>ierr\<close>.
\<close>

theorem Start_transport_error_loses_cause:
  "fst (Start sampleCodec
          (sampleResponses\<lparr>httpGets := [TransportError (Collaborator ''connection refused'')]\<rparr>)
          sampleHelper sampleOptions sampleWorld)
     = Some ([], Some (NewError ''cannot access master readiness URL %s''
                         [S ''https://10.0.0.5:8443/healthz/ready''] None))"
  by (simp add: Start_defs sample_defs healthzReadyURL_def Master_def)

text \<open>
  C3. On the responses 503, 503, 200 the readiness loop makes exactly three requests, with
  a sleep of 500 milliseconds after each of the first two, and ends with success; on 403,
  500 it makes exactly two requests and returns the error that carries the status and the
  body of the second response. After every 503 and every 403 the loop sleeps 500
  milliseconds and goes on with the next request. In the scenario of section 8 with the
  responses 503, 503, 200, \<^verbatim>\<open>Start\<close> makes three requests and returns the staged
  directory.
\<close>

theorem readinessLoop_canned_sequences:
  "readinessLoop h ip err [Response 503 b1, Response 503 b2, Response 200 b3] w
     = (Break, w\<lparr>trace := trace w @ [HttpGet (healthzReadyURL h ip), Sleep 500,
                                      HttpGet (healthzReadyURL h ip), Sleep 500,
                                      HttpGet (healthzReadyURL h ip)]\<rparr>)
   \<and> readinessLoop h ip err [Response 403 b1, Response 500 (Inr body)] w
     = (Return [] (Some (NewError ''server is not ready. Response (%d): %s''
                           [D 500, S body] None)),
        w\<lparr>trace := trace w @ [HttpGet (healthzReadyURL h ip), Sleep 500,
                                HttpGet (healthzReadyURL h ip)]\<rparr>)
   \<and> readinessLoop h ip err (Response 503 b1 # rs) w
     = readinessLoop h ip err rs (emit (Sleep 500) (emit (HttpGet (healthzReadyURL h ip)) w))
   \<and> readinessLoop h ip err (Response 403 b1 # rs) w
     = readinessLoop h ip err rs (emit (Sleep 500) (emit (HttpGet (healthzReadyURL h ip)) w))
   \<and> fst (Start sampleCodec
            (sampleResponses\<lparr>httpGets := [Response 503 (Inr []), Response 503 (Inr []),
                                           Response 200 (Inr ''ok'')]\<rparr>)
            sampleHelper sampleOptions sampleWorld)
     = Some (''/tmp/openshift-config987654321'', None)
   \<and> length (requests (snd (Start sampleCodec
            (sampleResponses\<lparr>httpGets := [Response 503 (Inr []), Response 503 (Inr []),
                                           Response 200 (Inr ''ok'')]\<rparr>)
            sampleHelper sampleOptions sampleWorld))) = 3"
  by (simp add: Start_defs sample_defs requests_def)

section \<open>What each step of Start changes\<close>

lemma staged_emit: "staged (emit e w) = staged w"
  by (simp add: emit_def)

lemma generations_emit:
  "generations (emit e w) = generations w @ (if isRunContainer e then [e] else [])"
  by (simp add: emit_def generations_def)

lemma generations_os_RemoveAll: "generations (os_RemoveAll p w) = generations w"
  by (simp add: os_RemoveAll_def generations_def)

lemma generations_staged_update: "generations (w\<lparr>staged := s\<rparr>) = generations w"
  by (simp add: generations_def)

lemma trace_emit: "trace (emit e w) = trace w @ [e]"
  by (simp add: emit_def)

lemma ioutil_TempDir_cases:
  assumes "ioutil_TempDir a prefix w = (res, w1)"
  shows "trace w1 = trace w"
    and "\<And>err. res = Inl err \<Longrightarrow> w1 = w"
    and "\<And>name. res = Inr name \<Longrightarrow>
           name \<noteq> [] \<and> staged w name = None \<and> staged w1 = (staged w)(name \<mapsto> Map.empty)"
  using assms
  by (auto simp: ioutil_TempDir_def os_TempDir_def Let_def split: sum.splits if_splits)

lemma copyConfig_cases:
  assumes "copyConfig a b hostDir w = ((p, e), w1)"
  shows "trace w1 = trace w"
    and "e \<noteq> None \<Longrightarrow> p = [] \<and> staged w1 = staged w"
    and "e = None \<Longrightarrow> p \<noteq> [] \<and> staged w p = None
           \<and> (\<exists>tree. b = Inr tree \<and> staged w1 = (staged w)(p \<mapsto> tree))"
proof -
  obtain res w0 where t: "ioutil_TempDir a ''openshift-config'' w = (res, w0)"
    by (cases "ioutil_TempDir a ''openshift-config'' w")
  note T = ioutil_TempDir_cases [OF t]
  show "trace w1 = trace w"
    using assms t T(1)
    by (auto simp: copyConfig_def os_RemoveAll_def split: sum.splits if_splits)
  show "e \<noteq> None \<Longrightarrow> p = [] \<and> staged w1 = staged w"
    using assms t T(2,3)
    by (auto simp: copyConfig_def os_RemoveAll_def split: sum.splits if_splits)
  show "e = None \<Longrightarrow> p \<noteq> [] \<and> staged w p = None
           \<and> (\<exists>tree. b = Inr tree \<and> staged w1 = (staged w)(p \<mapsto> tree))"
    using assms t T(2,3)
    by (auto simp: copyConfig_def os_RemoveAll_def split: sum.splits if_splits)
qed

lemma updateConfig_cases:
  assumes "updateConfig cd r h d hostDir ip w = (e, w1)"
  shows "trace w1 = trace w"
    and "\<And>d'. d' \<noteq> d \<Longrightarrow> staged w1 d' = staged w d'"
  using assms
  by (auto simp: updateConfig_def ioutil_WriteFile_def Let_def
           split: sum.splits option.splits if_splits prod.splits)

lemma readinessLoop_cases:
  assumes "readinessLoop h ip err rs w = (res, w1)"
  shows "staged w1 = staged w \<and> generations w1 = generations w
         \<and> (\<forall>p e. res = Return p e \<longrightarrow> p = [] \<and> e \<noteq> None)"
  using assms
proof (induction h ip err rs w rule: readinessLoop.induct)
  case (1 h ip err w)
  then show ?case by simp
next
  case (2 h ip err ierr rs w)
  then show ?case by (auto simp: staged_emit generations_emit)
next
  case (3 h ip err StatusCode Body rs w)
  then show ?case
    by (auto simp: staged_emit generations_emit Let_def split: if_splits)
qed

lemma createConfig_cases:
  assumes "createConfig cd r h opt w = (res, w')"
  shows "generations w' = generations w @ [RunContainer (imageName h) (startBinds opt)
                                             (startEnv opt) (createConfigCmd h opt)]"
    and "\<And>d. staged w d \<noteq> None \<Longrightarrow> staged w' d = staged w d"
    and "\<And>p e. res = Inl (p, e) \<Longrightarrow> p = [] \<and> e \<noteq> None"
    and "\<And>d. res = Inr d \<Longrightarrow> d \<noteq> [] \<and> staged w d = None
           \<and> fst (copyConfig (createTempDir r) (createCopy r) (HostConfigDir opt)
                    (emit (RunContainer (imageName h) (startBinds opt) (startEnv opt)
                             (createConfigCmd h opt))
                       (emit (Fprintf (''Creating initial OpenShift configuration''
                                       @ [CHR 0x0A])) w))) = (d, None)"
proof -
  define w2 where "w2 = emit (RunContainer (imageName h) (startBinds opt) (startEnv opt)
                             (createConfigCmd h opt))
                       (emit (Fprintf (''Creating initial OpenShift configuration''
                                       @ [CHR 0x0A])) w)"
  have g2: "generations w2 = generations w @ [RunContainer (imageName h) (startBinds opt)
                                             (startEnv opt) (createConfigCmd h opt)]"
    and s2: "staged w2 = staged w"
    by (simp_all add: w2_def generations_emit staged_emit)
  obtain p2 e2 w3 where c: "copyConfig (createTempDir r) (createCopy r) (HostConfigDir opt) w2
                              = ((p2, e2), w3)"
    by (metis prod.exhaust)
  note C = copyConfig_cases [OF c]
  obtain e4 w4 where u: "updateConfig cd r h p2 (HostConfigDir opt) (ServerIP opt) w3 = (e4, w4)"
    by (metis prod.exhaust)
  note U = updateConfig_cases [OF u]
  have g3: "generations w3 = generations w2" and g4: "generations w4 = generations w3"
    using C(1) U(1) by (simp_all add: generations_def)
  have res: "(res, w') =
     (case createConfigRun r of
        Some err \<Rightarrow> (Inl ([], Some (NewError ''could not create OpenShift configuration'' []
                                (Some err))), w2)
      | None \<Rightarrow>
          (case e2 of
             Some err \<Rightarrow> (Inl ([], Some (NewError ''could not copy OpenShift configuration'' []
                                     (Some err))), w3)
           | None \<Rightarrow>
               (case e4 of
                  Some err \<Rightarrow> (Inl ([], Some (NewError
                                   ''could not update OpenShift configuration'' []
                                   (Some err))), cleanupConfig p2 w4)
                | None \<Rightarrow> (Inr p2, w4))))"
    using assms c u unfolding w2_def
    by (simp add: createConfig_def Let_def split: option.splits)
  have gc: "generations (cleanupConfig p2 w4) = generations w4"
    by (simp add: cleanupConfig_def os_RemoveAll_def generations_def)
  show "generations w' = generations w @ [RunContainer (imageName h) (startBinds opt)
                                             (startEnv opt) (createConfigCmd h opt)]"
    using res g2 g3 g4 gc by (auto split: option.splits)
  show "\<And>p e. res = Inl (p, e) \<Longrightarrow> p = [] \<and> e \<noteq> None"
    using res by (auto split: option.splits)
  show "\<And>d. res = Inr d \<Longrightarrow> d \<noteq> [] \<and> staged w d = None
           \<and> fst (copyConfig (createTempDir r) (createCopy r) (HostConfigDir opt)
                    (emit (RunContainer (imageName h) (startBinds opt) (startEnv opt)
                             (createConfigCmd h opt))
                       (emit (Fprintf (''Creating initial OpenShift configuration''
                                       @ [CHR 0x0A])) w))) = (d, None)"
    using res C(3) c s2 unfolding w2_def by (auto split: option.splits)
  show "staged w' d = staged w d" if d: "staged w d \<noteq> None" for d
  proof (cases e2)
    case (Some err)
    then show ?thesis using res C(2) s2 by (auto split: option.splits)
  next
    case None
    then have p2: "staged w2 p2 = None" and s3: "\<exists>tree. staged w3 = (staged w2)(p2 \<mapsto> tree)"
      using C(3) by auto
    have ne: "d \<noteq> p2" using d p2 s2 by auto
    have "staged w3 d = staged w d" using s3 ne s2 by auto
    moreover have "staged w4 d = staged w3 d" using U(2) ne by simp
    moreover have "staged (cleanupConfig p2 w4) d = staged w4 d"
      using ne by (simp add: cleanupConfig_def os_RemoveAll_def)
    ultimately show ?thesis using res None s2 by (auto split: option.splits)
  qed
qed

lemma launchDaemon_cases:
  assumes "launchDaemon r h opt c w = (res, w')"
  shows "generations w' = generations w"
    and "\<And>d. d \<noteq> c \<Longrightarrow> staged w' d = staged w d"
    and "\<And>p e. res = Inl (p, e) \<Longrightarrow> p = [] \<and> e \<noteq> None"
    and "\<And>d. res = Inr d \<Longrightarrow> d = c \<and> staged w' = staged w"
  using assms
  by (auto simp: launchDaemon_def getOpenShiftConfigFiles_def Let_def generations_emit
                 staged_emit cleanupConfig_def generations_staged_update os_RemoveAll_def
           split: sum.splits option.splits if_splits)

lemma awaitReady_cases:
  assumes "awaitReady r h opt c w = (res, w')"
  shows "generations w' = generations w"
    and "staged w' = staged w"
    and "\<And>p e. res = Some (p, e) \<Longrightarrow> (p = c \<and> e = None) \<or> (p = [] \<and> e \<noteq> None)"
proof -
  define w3 where "w3 = emit (WaitForSuccessfulDial (ServerIP opt @ '':8443''))
     (emit (Fprintf (''Waiting for API server to start listening'' @ [CHR 0x0A]))
        (emit (GetContainerState (containerName h))
           (emit (Sleep initialStatusCheckWait) w)))"
  obtain pr w4 where l: "readinessLoop h (ServerIP opt) None (httpGets r) w3 = (pr, w4)"
    by (metis prod.exhaust)
  note L = readinessLoop_cases [OF l]
  have s3: "staged w3 = staged w" and g3: "generations w3 = generations w"
    by (simp_all add: w3_def staged_emit generations_emit)
  show "generations w' = generations w"
    using assms l L g3
    unfolding w3_def
    by (auto simp: awaitReady_def Let_def generations_emit masterHTTPClient_def
             split: sum.splits option.splits if_splits poll.splits)
  show "staged w' = staged w"
    using assms l L s3
    unfolding w3_def
    by (auto simp: awaitReady_def Let_def staged_emit masterHTTPClient_def
             split: sum.splits option.splits if_splits poll.splits)
  show "\<And>p e. res = Some (p, e) \<Longrightarrow> (p = c \<and> e = None) \<or> (p = [] \<and> e \<noteq> None)"
    using assms l L
    unfolding w3_def
    by (auto simp: awaitReady_def Let_def masterHTTPClient_def
             split: sum.splits option.splits if_splits poll.splits)
qed

lemma Start_after_resolve:
  assumes "resolveConfig cd r h opt w = (res, w1)"
  shows "generations (snd (Start cd r h opt w)) = generations w1"
    and "\<And>p e. res = Inl (p, e) \<Longrightarrow> Start cd r h opt w = (Some (p, e), w1)"
    and "\<And>c d. res = Inr c \<Longrightarrow> d \<noteq> c \<Longrightarrow> staged (snd (Start cd r h opt w)) d = staged w1 d"
    and "\<And>c p e. res = Inr c \<Longrightarrow> fst (Start cd r h opt w) = Some (p, e)
           \<Longrightarrow> (p = c \<and> e = None) \<or> (p = [] \<and> e \<noteq> None)"
proof -
  show "\<And>p e. res = Inl (p, e) \<Longrightarrow> Start cd r h opt w = (Some (p, e), w1)"
    using assms by (simp add: Start_def)
  have inl: "Start cd r h opt w = (Some ret, w1)" if "res = Inl ret" for ret
    using assms that by (simp add: Start_def)
  have inr: "generations (snd (Start cd r h opt w)) = generations w1
             \<and> (\<forall>d. d \<noteq> c \<longrightarrow> staged (snd (Start cd r h opt w)) d = staged w1 d)
             \<and> (\<forall>p e. fst (Start cd r h opt w) = Some (p, e)
                   \<longrightarrow> (p = c \<and> e = None) \<or> (p = [] \<and> e \<noteq> None))"
    if c: "res = Inr c" for c
  proof -
    obtain res2 w2 where l: "launchDaemon r h opt c w1 = (res2, w2)"
      by (metis prod.exhaust)
    note L = launchDaemon_cases [OF l]
    show ?thesis
    proof (cases res2)
      case (Inl ret)
      obtain p e where ret: "ret = (p, e)" by (cases ret)
      have "Start cd r h opt w = (Some (p, e), w2)"
        using assms c l Inl ret by (simp add: Start_def)
      then show ?thesis using L(1,2,3) Inl ret by auto
    next
      case (Inr c')
      then have c': "c' = c" and s2: "staged w2 = staged w1" using L(4) by auto
      obtain res3 w3 where a: "awaitReady r h opt c w2 = (res3, w3)"
        by (metis prod.exhaust)
      note A = awaitReady_cases [OF a]
      have "Start cd r h opt w = (res3, w3)"
        using assms c l Inr c' a by (simp add: Start_def)
      then show ?thesis using A L(1) s2 by auto
    qed
  qed
  show "generations (snd (Start cd r h opt w)) = generations w1"
  proof (cases res)
    case (Inl ret)
    then show ?thesis using inl by simp
  next
    case (Inr c)
    then show ?thesis using inr by simp
  qed
  show "\<And>c d. res = Inr c \<Longrightarrow> d \<noteq> c \<Longrightarrow> staged (snd (Start cd r h opt w)) d = staged w1 d"
    using inr by blast
  show "\<And>c p e. res = Inr c \<Longrightarrow> fst (Start cd r h opt w) = Some (p, e)
           \<Longrightarrow> (p = c \<and> e = None) \<or> (p = [] \<and> e \<noteq> None)"
    using inr by blast
qed


section \<open>The result of Start\<close>



lemma probeExistingConfig_eq:
  assumes "UseExistingConfig opt"
      and "copyConfig (probeTempDir r) (probeCopy r) (HostConfigDir opt) w
             = ((configDir, err), w1)"
  shows "probeExistingConfig r opt w
           = ((configDir, err = None \<and> os_Stat w1 configDir masterConfigYaml = None), w1)"
  using assms by (auto simp: probeExistingConfig_def split: option.splits)

section \<open>The probe for an existing configuration\<close>

text \<open>
  C6. With \<^verbatim>\<open>UseExistingConfig\<close> set: when the probe's \<^verbatim>\<open>copyConfig\<close> succeeds and
  the staged copy has \<^verbatim>\<open>master/master-config.yaml\<close>, \<^verbatim>\<open>Start\<close> never runs the
  generation command, on any path and whether or not it returns; when the staging or the
  presence check fails, \<^verbatim>\<open>Start\<close> does not stop there: it runs the generation command,
  exactly once.
\<close>

theorem Start_existing_config_probe:
  assumes "UseExistingConfig opt"
      and "copyConfig (probeTempDir r) (probeCopy r) (HostConfigDir opt) w
             = ((configDir, err), w1)"
  shows "generations (snd (Start cd r h opt w)) =
           (if err = None \<and> os_Stat w1 configDir masterConfigYaml = None
            then generations w
            else generations w @ [RunContainer (imageName h) (startBinds opt) (startEnv opt)
                                    (createConfigCmd h opt)])"
proof -
  note P = probeExistingConfig_eq [OF assms]
  have g1: "generations w1 = generations w"
    using copyConfig_cases(1) [OF assms(2)] by (simp add: generations_def)
  show ?thesis
  proof (cases "err = None \<and> os_Stat w1 configDir masterConfigYaml = None")
    case True
    then have "resolveConfig cd r h opt w = (Inr configDir, w1)"
      using P by (simp add: resolveConfig_def)
    from Start_after_resolve(1) [OF this] show ?thesis using True g1 by simp
  next
    case False
    obtain res w2 where c: "createConfig cd r h opt w1 = (res, w2)"
      by (metis prod.exhaust)
    have "resolveConfig cd r h opt w = (res, w2)"
      using P False c by (simp add: resolveConfig_def)
    from Start_after_resolve(1) [OF this] show ?thesis
      using False g1 createConfig_cases(1) [OF c] by simp
  qed
qed

theorem Start_existing_config_probe_witness:
  "generations (snd (Start sampleCodec sampleResponses sampleHelper
                       (sampleOptions\<lparr>UseExistingConfig := True\<rparr>) sampleWorld)) = []
   \<and> generations (snd (Start sampleCodec
                         (sampleResponses\<lparr>probeCopy := Inl (Collaborator ''copy failed'')\<rparr>)
                         sampleHelper (sampleOptions\<lparr>UseExistingConfig := True\<rparr>)
                         sampleWorld))
     = [RunContainer (imageName sampleHelper)
          (startBinds (sampleOptions\<lparr>UseExistingConfig := True\<rparr>))
          (startEnv (sampleOptions\<lparr>UseExistingConfig := True\<rparr>))
          (createConfigCmd sampleHelper (sampleOptions\<lparr>UseExistingConfig := True\<rparr>))]
   \<and> generations (snd (Start sampleCodec
                         (sampleResponses\<lparr>probeCopy := Inr Map.empty\<rparr>)
                         sampleHelper (sampleOptions\<lparr>UseExistingConfig := True\<rparr>)
                         sampleWorld))
     = [RunContainer (imageName sampleHelper)
          (startBinds (sampleOptions\<lparr>UseExistingConfig := True\<rparr>))
          (startEnv (sampleOptions\<lparr>UseExistingConfig := True\<rparr>))
          (createConfigCmd sampleHelper (sampleOptions\<lparr>UseExistingConfig := True\<rparr>))]"
proof -
  let ?opt = "sampleOptions\<lparr>UseExistingConfig := True\<rparr>"
  let ?dir = "''/tmp/openshift-config123456789''"
  have u: "UseExistingConfig ?opt" by simp
  have a: "copyConfig (probeTempDir sampleResponses) (probeCopy sampleResponses)
             (HostConfigDir ?opt) sampleWorld
           = ((?dir, None),
              \<lparr>staged = [?dir \<mapsto> [masterConfigYaml \<mapsto> ''router.default.local'']],
               trace = []\<rparr>)"
    by (simp add: copyConfig_def ioutil_TempDir_def os_TempDir_def sample_defs Let_def)
  have b: "copyConfig (probeTempDir (sampleResponses\<lparr>probeCopy := Inl (Collaborator ''copy failed'')\<rparr>))
             (probeCopy (sampleResponses\<lparr>probeCopy := Inl (Collaborator ''copy failed'')\<rparr>))
             (HostConfigDir ?opt) sampleWorld
           = (([], Some (Collaborator ''copy failed'')), sampleWorld)"
    by (simp add: copyConfig_def ioutil_TempDir_def os_TempDir_def os_RemoveAll_def
                  sample_defs Let_def)
  have c: "copyConfig (probeTempDir (sampleResponses\<lparr>probeCopy := Inr Map.empty\<rparr>))
             (probeCopy (sampleResponses\<lparr>probeCopy := Inr Map.empty\<rparr>))
             (HostConfigDir ?opt) sampleWorld
           = ((?dir, None), \<lparr>staged = [?dir \<mapsto> Map.empty], trace = []\<rparr>)"
    by (simp add: copyConfig_def ioutil_TempDir_def os_TempDir_def sample_defs Let_def)
  show ?thesis
    using Start_existing_config_probe [OF u a, of sampleCodec sampleHelper]
          Start_existing_config_probe [OF u b, of sampleCodec sampleHelper]
          Start_existing_config_probe [OF u c, of sampleCodec sampleHelper]
    by (simp add: os_Stat_def readFile_def generations_def sampleWorld_def)
qed

text \<open>
  C10. With \<^verbatim>\<open>UseExistingConfig\<close> set, the probe's \<^verbatim>\<open>copyConfig\<close> succeeding and the
  staged copy lacking \<^verbatim>\<open>master/master-config.yaml\<close>: \<^verbatim>\<open>Start\<close> runs the generation
  command; the directory staged by the probe exists after the probe and is still there,
  unchanged, wherever \<^verbatim>\<open>Start\<close> ends; \<^verbatim>\<open>Start\<close> never returns it; and the path of a
  successful return is another directory, the one staged by the \<^verbatim>\<open>copyConfig\<close> of line
  220.
\<close>

theorem Start_abandons_probe_directory:
  assumes "UseExistingConfig opt"
      and "copyConfig (probeTempDir r) (probeCopy r) (HostConfigDir opt) w
             = ((probeDir, None), w1)"
      and "os_Stat w1 probeDir masterConfigYaml = Some e"
  shows "generations (snd (Start cd r h opt w))
           = generations w @ [RunContainer (imageName h) (startBinds opt) (startEnv opt)
                                (createConfigCmd h opt)]
         \<and> staged w1 probeDir \<noteq> None
         \<and> staged (snd (Start cd r h opt w)) probeDir = staged w1 probeDir
         \<and> (\<forall>err. fst (Start cd r h opt w) \<noteq> Some (probeDir, err))
         \<and> (\<forall>path. fst (Start cd r h opt w) = Some (path, None) \<longrightarrow>
               path \<noteq> probeDir
               \<and> fst (copyConfig (createTempDir r) (createCopy r) (HostConfigDir opt)
                        (emit (RunContainer (imageName h) (startBinds opt) (startEnv opt)
                                 (createConfigCmd h opt))
                           (emit (Fprintf (''Creating initial OpenShift configuration''
                                           @ [CHR 0x0A])) w1))) = (path, None))"
proof -
  note P = probeExistingConfig_eq [OF assms(1,2)]
  note C = copyConfig_cases [OF assms(2)]
  have ne: "probeDir \<noteq> []" and st: "staged w1 probeDir \<noteq> None"
    using C(3) by auto
  have g1: "generations w1 = generations w"
    using C(1) by (simp add: generations_def)
  obtain res w2 where c: "createConfig cd r h opt w1 = (res, w2)"
    by (metis prod.exhaust)
  note CC = createConfig_cases [OF c]
  have rc: "resolveConfig cd r h opt w = (res, w2)"
    using P assms(3) c by (simp add: resolveConfig_def)
  note S = Start_after_resolve [OF rc]
  have gen: "generations (snd (Start cd r h opt w))
           = generations w @ [RunContainer (imageName h) (startBinds opt) (startEnv opt)
                                (createConfigCmd h opt)]"
    using S(1) CC(1) g1 by simp
  have s2: "staged w2 probeDir = staged w1 probeDir"
    using CC(2) st by simp
  show ?thesis
  proof (cases res)
    case (Inl ret)
    obtain p er where ret: "ret = (p, er)" by (cases ret)
    have "Start cd r h opt w = (Some (p, er), w2)" and "p = []" and "er \<noteq> None"
      using S(2) CC(3) Inl ret by auto
    then show ?thesis using gen st s2 ne by auto
  next
    case (Inr c2)
    have c2: "c2 \<noteq> probeDir" and cp: "fst (copyConfig (createTempDir r) (createCopy r)
                        (HostConfigDir opt)
                        (emit (RunContainer (imageName h) (startBinds opt) (startEnv opt)
                                 (createConfigCmd h opt))
                           (emit (Fprintf (''Creating initial OpenShift configuration''
                                           @ [CHR 0x0A])) w1))) = (c2, None)"
      using CC(4) [OF Inr] st by auto
    have keep: "staged (snd (Start cd r h opt w)) probeDir = staged w1 probeDir"
      using S(3) [OF Inr, of probeDir] c2 s2 by simp
    have ret: "(p = c2 \<and> er = None) \<or> (p = [] \<and> er \<noteq> None)"
      if "fst (Start cd r h opt w) = Some (p, er)" for p er
      using S(4) [OF Inr that] .
    show ?thesis using gen st keep ret c2 cp ne by fastforce
  qed
qed

theorem Start_abandons_probe_directory_witness:
  "os_Stat \<lparr>staged = [''/tmp/openshift-config123456789'' \<mapsto> Map.empty], trace = []\<rparr>
       ''/tmp/openshift-config123456789'' masterConfigYaml
     = Some (Collaborator ''no such file or directory'')
   \<and> staged (snd (Start sampleCodec (sampleResponses\<lparr>probeCopy := Inr Map.empty\<rparr>)
                    sampleHelper (sampleOptions\<lparr>UseExistingConfig := True\<rparr>) sampleWorld))
        ''/tmp/openshift-config123456789'' = Some Map.empty
   \<and> fst (Start sampleCodec (sampleResponses\<lparr>probeCopy := Inr Map.empty\<rparr>)
            sampleHelper (sampleOptions\<lparr>UseExistingConfig := True\<rparr>) sampleWorld)
     = Some (''/tmp/openshift-config987654321'', None)"
proof -
  let ?opt = "sampleOptions\<lparr>UseExistingConfig := True\<rparr>"
  let ?r = "sampleResponses\<lparr>probeCopy := Inr Map.empty\<rparr>"
  let ?dir = "''/tmp/openshift-config123456789''"
  let ?w1 = "\<lparr>staged = [?dir \<mapsto> Map.empty], trace = []\<rparr>"
  have u: "UseExistingConfig ?opt" by simp
  have c: "copyConfig (probeTempDir ?r) (probeCopy ?r) (HostConfigDir ?opt) sampleWorld
           = ((?dir, None), ?w1)"
    by (simp add: copyConfig_def ioutil_TempDir_def os_TempDir_def sample_defs Let_def)
  have s: "os_Stat ?w1 ?dir masterConfigYaml = Some (Collaborator ''no such file or directory'')"
    by (simp add: os_Stat_def readFile_def)
  have f: "fst (Start sampleCodec ?r sampleHelper ?opt sampleWorld)
             = Some (''/tmp/openshift-config987654321'', None)"
    by (simp add: Start_defs sample_defs)
  show ?thesis
    using Start_abandons_probe_directory [OF u c s, of sampleCodec sampleHelper] s f
    by simp
qed

section \<open>The classification of failures after the launch\<close>

text \<open>
  C8. Once \<^verbatim>\<open>Start\<close> has launched the daemon (lines 164 to 260 passed), it sleeps the
  grace period of four seconds and queries the state of the container: an error of the
  query gives the error "cannot get state of OpenShift container" with that cause; a
  container that is not running gives \<^verbatim>\<open>ErrOpenShiftFailedToStart\<close>; a running container
  and a dial wait that fails give \<^verbatim>\<open>ErrTimedOutWaitingForStart\<close>. The three errors are
  pairwise different.
\<close>

theorem Start_post_launch_failures:
  assumes "resolveConfig cd r h opt w = (Inr configDir, w1)"
      and "launchDaemon r h opt configDir w1 = (Inr configDir', w2)"
  shows "(\<forall>e. containerState r = Inl e \<longrightarrow>
            Start cd r h opt w
              = (Some ([], Some (NewError ''cannot get state of OpenShift container %s''
                                   [S (containerName h)] (Some e))),
                 emit (GetContainerState (containerName h)) (emit (Sleep 4000) w2)))
         \<and> (containerState r = Inr False \<longrightarrow>
              Start cd r h opt w
                = (Some ([], Some (ErrOpenShiftFailedToStart (containerName h))),
                   emit (GetContainerState (containerName h)) (emit (Sleep 4000) w2)))
         \<and> (\<forall>e. containerState r = Inr True \<and> dial r = Some e \<longrightarrow>
              Start cd r h opt w
                = (Some ([], Some (ErrTimedOutWaitingForStart (containerName h))),
                   emit (WaitForSuccessfulDial (ServerIP opt @ '':8443''))
                     (emit (Fprintf (''Waiting for API server to start listening''
                                     @ [CHR 0x0A]))
                        (emit (GetContainerState (containerName h))
                           (emit (Sleep 4000) w2)))))
         \<and> ErrTimedOutWaitingForStart (containerName h)
             \<noteq> ErrOpenShiftFailedToStart (containerName h)
         \<and> (\<forall>e. NewError ''cannot get state of OpenShift container %s''
                   [S (containerName h)] (Some e)
                 \<noteq> ErrOpenShiftFailedToStart (containerName h))
         \<and> (\<forall>e. NewError ''cannot get state of OpenShift container %s''
                   [S (containerName h)] (Some e)
                 \<noteq> ErrTimedOutWaitingForStart (containerName h))"
proof -
  have "Start cd r h opt w = awaitReady r h opt configDir' w2"
    using assms by (simp add: Start_def)
  then show ?thesis
    by (simp add: awaitReady_def Let_def initialStatusCheckWait_def)
qed

theorem Start_post_launch_failures_witness:
  "fst (Start sampleCodec
          (sampleResponses\<lparr>containerState := Inl (Collaborator ''no such container'')\<rparr>)
          sampleHelper sampleOptions sampleWorld)
     = Some ([], Some (NewError ''cannot get state of OpenShift container %s'' [S ''origin'']
                         (Some (Collaborator ''no such container''))))
   \<and> fst (Start sampleCodec (sampleResponses\<lparr>containerState := Inr False\<rparr>)
            sampleHelper sampleOptions sampleWorld)
     = Some ([], Some (ErrOpenShiftFailedToStart ''origin''))
   \<and> fst (Start sampleCodec (sampleResponses\<lparr>dial := Some (Collaborator ''timed out'')\<rparr>)
            sampleHelper sampleOptions sampleWorld)
     = Some ([], Some (ErrTimedOutWaitingForStart ''origin''))"
proof -
  let ?ra = "sampleResponses\<lparr>containerState := Inl (Collaborator ''no such container'')\<rparr>"
  let ?rb = "sampleResponses\<lparr>containerState := Inr False\<rparr>"
  let ?rc = "sampleResponses\<lparr>dial := Some (Collaborator ''timed out'')\<rparr>"
  let ?dir = "''/tmp/openshift-config987654321''"
  have a1: "fst (resolveConfig sampleCodec ?ra sampleHelper sampleOptions sampleWorld) = Inr ?dir"
    and b1: "fst (resolveConfig sampleCodec ?rb sampleHelper sampleOptions sampleWorld) = Inr ?dir"
    and c1: "fst (resolveConfig sampleCodec ?rc sampleHelper sampleOptions sampleWorld) = Inr ?dir"
    by (simp_all add: Start_defs sample_defs)
  have a2: "fst (launchDaemon ?ra sampleHelper sampleOptions ?dir
              (snd (resolveConfig sampleCodec ?ra sampleHelper sampleOptions sampleWorld)))
            = Inr ?dir"
    and b2: "fst (launchDaemon ?rb sampleHelper sampleOptions ?dir
              (snd (resolveConfig sampleCodec ?rb sampleHelper sampleOptions sampleWorld)))
            = Inr ?dir"
    and c2: "fst (launchDaemon ?rc sampleHelper sampleOptions ?dir
              (snd (resolveConfig sampleCodec ?rc sampleHelper sampleOptions sampleWorld)))
            = Inr ?dir"
    by (simp_all add: launchDaemon_def getOpenShiftConfigFiles_def Let_def sample_defs)
  show ?thesis
    using Start_post_launch_failures [of sampleCodec ?ra sampleHelper sampleOptions sampleWorld
            ?dir "snd (resolveConfig sampleCodec ?ra sampleHelper sampleOptions sampleWorld)"
            ?dir "snd (launchDaemon ?ra sampleHelper sampleOptions ?dir
              (snd (resolveConfig sampleCodec ?ra sampleHelper sampleOptions sampleWorld)))"]
          Start_post_launch_failures [of sampleCodec ?rb sampleHelper sampleOptions sampleWorld
            ?dir "snd (resolveConfig sampleCodec ?rb sampleHelper sampleOptions sampleWorld)"
            ?dir "snd (launchDaemon ?rb sampleHelper sampleOptions ?dir
              (snd (resolveConfig sampleCodec ?rb sampleHelper sampleOptions sampleWorld)))"]
          Start_post_launch_failures [of sampleCodec ?rc sampleHelper sampleOptions sampleWorld
            ?dir "snd (resolveConfig sampleCodec ?rc sampleHelper sampleOptions sampleWorld)"
            ?dir "snd (launchDaemon ?rc sampleHelper sampleOptions ?dir
              (snd (resolveConfig sampleCodec ?rc sampleHelper sampleOptions sampleWorld)))"]
          a1 b1 c1 a2 b2 c2
    by (simp add: prod_eq_iff sampleHelper_def sampleResponses_def sampleOptions_def)
qed

section \<open>Patching the routing subdomain\<close>

text \<open>
  C7. For a codec whose parser reads back what its serialiser writes: when
  \<^verbatim>\<open>updateConfig\<close> succeeds on a staged directory, the master configuration file parsed
  before and parsed again after differ in the routing subdomain only, which is the
  helper's routing suffix when that is not empty and \<^verbatim>\<open>serverIP.xip.io\<close> otherwise.
\<close>

theorem updateConfig_roundtrip:
  assumes "codecRoundTrip cd"
      and "updateConfig cd r h configDir hostDir serverIP w = (None, w')"
  shows "\<exists>cfg cfg'. ReadMasterConfig cd w configDir = Inr cfg
           \<and> ReadMasterConfig cd w' configDir = Inr cfg'
           \<and> Subdomain cfg' = (if routingSuffix h = [] then serverIP @ ''.xip.io''
                                else routingSuffix h)
           \<and> Rest cfg' = Rest cfg
           \<and> cfg' = cfg\<lparr>Subdomain := Subdomain cfg'\<rparr>"
  using assms
  by (auto simp: codecRoundTrip_def updateConfig_def ReadMasterConfig_def readFile_def
                 ioutil_WriteFile_def Let_def
           split: sum.splits option.splits if_splits)

lemma sampleCodec_roundtrip: "codecRoundTrip sampleCodec"
  unfolding codecRoundTrip_def
proof (intro allI impI)
  fix cfg :: "unit MasterConfig" and bytes
  assume "WriteYAML sampleCodec cfg = Inr bytes"
  then show "decodeYAML sampleCodec bytes = Inr cfg"
    by (cases cfg) (auto simp: sampleCodec_def)
qed

theorem updateConfig_roundtrip_witness:
  "updateConfig sampleCodec sampleResponses sampleHelper ''/tmp/openshift-config1'' ''/host''
     ''10.0.0.5''
     \<lparr>staged = [''/tmp/openshift-config1'' \<mapsto> [masterConfigYaml \<mapsto> ''router.default.local'']],
      trace = []\<rparr>
     = (None,
        \<lparr>staged = [''/tmp/openshift-config1'' \<mapsto> [masterConfigYaml \<mapsto> ''10.0.0.5.xip.io'']],
         trace = []\<rparr>)
   \<and> ReadMasterConfig sampleCodec
        \<lparr>staged = [''/tmp/openshift-config1'' \<mapsto> [masterConfigYaml \<mapsto> ''router.default.local'']],
         trace = []\<rparr> ''/tmp/openshift-config1''
     = Inr \<lparr>Subdomain = ''router.default.local'', Rest = ()\<rparr>
   \<and> ReadMasterConfig sampleCodec
        \<lparr>staged = [''/tmp/openshift-config1'' \<mapsto> [masterConfigYaml \<mapsto> ''10.0.0.5.xip.io'']],
         trace = []\<rparr> ''/tmp/openshift-config1''
     = Inr \<lparr>Subdomain = ''10.0.0.5.xip.io'', Rest = ()\<rparr>"
proof -
  let ?w = "\<lparr>staged = [''/tmp/openshift-config1'' \<mapsto> [masterConfigYaml \<mapsto> ''router.default.local'']],
      trace = []\<rparr>"
  let ?w' = "\<lparr>staged = [''/tmp/openshift-config1'' \<mapsto> [masterConfigYaml \<mapsto> ''10.0.0.5.xip.io'']],
         trace = []\<rparr>"
  have u: "updateConfig sampleCodec sampleResponses sampleHelper ''/tmp/openshift-config1''
             ''/host'' ''10.0.0.5'' ?w = (None, ?w')"
    by (simp add: updateConfig_def ReadMasterConfig_def readFile_def ioutil_WriteFile_def
                  Let_def sample_defs)
  have r: "ReadMasterConfig sampleCodec ?w ''/tmp/openshift-config1''
             = Inr \<lparr>Subdomain = ''router.default.local'', Rest = ()\<rparr>"
    by (simp add: ReadMasterConfig_def readFile_def sampleCodec_def)
  show ?thesis
    using updateConfig_roundtrip [OF sampleCodec_roundtrip u] u r
    by (auto simp: sampleHelper_def)
qed

end
